theory Spec2Isabelle
  imports
    Complex_Main
    "HOL-Library.List_Lexorder"
    "HOL-Library.Char_ord"
    "HOL-Library.Product_Lexorder"
begin

section \<open>The SDG progress predictor (ml/train_sdg_predictor.py)\<close>

text \<open>
  A data frame is a list of rows, a row is a record of its columns. A cell that pandas
  shows as NaN or None is \<open>None\<close>; a float is the real number it stands for (the
  properties below compare and average, they do not depend on rounding).
\<close>

subsection \<open>The query result of load_training_data\<close>

text \<open>
  The columns of the query result carry the table alias of the SELECT list
  (\<open>f.country_code\<close>, \<open>e.gdp_per_capita\<close>), which keeps them apart from the
  columns of the same name in the derived frames. The first seven are the columns
  that \<open>latest_attrs\<close> selects. The query keeps only rows with \<open>f.year >= 2000\<close>,
  so the year is never missing.
\<close>

record country_attrs =
  f_country_name :: "string option"
  f_region :: "string option"
  f_income_level :: "string option"
  e_gdp_per_capita :: "real option"
  e_population :: "real option"
  e_life_expectancy :: "real option"
  e_adult_literacy_rate :: "real option"

record observation = country_attrs +
  f_country_code :: "string option"
  f_goal_code :: "string option"
  f_year :: int
  f_indicators_measured :: "real option"
  f_avg_indicator_value :: "real option"
  f_yoy_change :: "real option"

subsection \<open>The derived frames\<close>

text \<open>progress_features after the column names are flattened.\<close>

record progress =
  country_code :: string
  goal_code :: string
  value_mean :: "real option"
  value_std :: "real option"
  value_min :: "real option"
  value_max :: "real option"
  value_latest :: "real option"
  avg_yoy_change :: "real option"
  total_change :: "real option"
  data_points :: nat
  latest_year :: "int option"
  avg_indicators_measured :: "real option"

text \<open>features after the merge with latest_attrs.\<close>

record merged = progress +
  country_name :: "string option"
  region :: "string option"
  income_level :: "string option"
  gdp_per_capita :: "real option"
  population :: "real option"
  life_expectancy :: "real option"
  adult_literacy_rate :: "real option"

text \<open>features as engineer_features returns it.\<close>

record features = merged +
  on_track_2030 :: int
  region_encoded :: nat
  income_encoded :: nat

text \<open>features as generate_predictions returns it.\<close>

record prediction = features +
  prediction_2030_probability :: real
  prediction_2030_on_track :: int
  prediction_category :: "string option"

text \<open>The exceptions that the library calls of the script raise.\<close>

datatype error = ValueError | IndexError

subsection \<open>Column reductions of pandas\<close>

text \<open>Every reduction skips the missing cells (skipna).\<close>

fun dropna :: "'a option list \<Rightarrow> 'a list" where
  "dropna [] = []"
| "dropna (None # col) = dropna col"
| "dropna (Some x # col) = x # dropna col"

definition agg_count :: "'a option list \<Rightarrow> nat" where
  "agg_count col = length (dropna col)"

definition agg_mean :: "real option list \<Rightarrow> real option" where
  "agg_mean col =
     (case dropna col of [] \<Rightarrow> None
      | x # xs \<Rightarrow> Some (sum_list (x # xs) / real (length (x # xs))))"

text \<open>The sample standard deviation (ddof = 1): NaN below two values.\<close>

definition agg_std :: "real option list \<Rightarrow> real option" where
  "agg_std col =
     (let xs = dropna col; n = length xs in
      if n < 2 then None
      else let m = sum_list xs / real n in
        Some (sqrt (sum_list (map (\<lambda>x. (x - m)\<^sup>2) xs) / real (n - 1))))"

definition agg_min :: "('a::linorder) option list \<Rightarrow> 'a option" where
  "agg_min col = (case dropna col of [] \<Rightarrow> None | x # xs \<Rightarrow> Some (fold min xs x))"

definition agg_max :: "('a::linorder) option list \<Rightarrow> 'a option" where
  "agg_max col = (case dropna col of [] \<Rightarrow> None | x # xs \<Rightarrow> Some (fold max xs x))"

text \<open>last: the last cell that is not missing.\<close>

definition agg_last :: "'a option list \<Rightarrow> 'a option" where
  "agg_last col = (case dropna col of [] \<Rightarrow> None | x # xs \<Rightarrow> Some (last (x # xs)))"

text \<open>A grouped sum has min_count = 0: the sum of no value is 0, not NaN.\<close>

definition agg_sum :: "real option list \<Rightarrow> real option" where
  "agg_sum col = Some (sum_list (dropna col))"

text \<open>
  Series.median: the middle value of the sorted values that are present, the mean of
  the two middle values when their number is even, NaN when there is none.
\<close>

definition median :: "real option list \<Rightarrow> real option" where
  "median col =
     (let s = sort (dropna col); n = length s in
      if n = 0 then None
      else if odd n then Some (s ! (n div 2))
      else Some ((s ! (n div 2 - 1) + s ! (n div 2)) / 2))"

definition fillna :: "'a \<Rightarrow> 'a option \<Rightarrow> 'a option" where
  "fillna v cell = (case cell of None \<Rightarrow> Some v | Some x \<Rightarrow> Some x)"

text \<open>fillna with a value that may itself be NaN (the median of an empty column).\<close>

definition fillna_with :: "'a option \<Rightarrow> 'a option \<Rightarrow> 'a option" where
  "fillna_with v cell = (case cell of None \<Rightarrow> v | Some x \<Rightarrow> Some x)"

text \<open>A comparison with NaN on either side is False.\<close>

definition gt_cell :: "real option \<Rightarrow> real option \<Rightarrow> bool" where
  "gt_cell a b = (case (a, b) of (Some x, Some y) \<Rightarrow> x > y | _ \<Rightarrow> False)"

subsection \<open>Sorting and grouping\<close>

text \<open>
  sort_values puts the rows with a missing key last. Rows with equal keys keep their
  order here; no property below depends on the order of such rows.
\<close>

definition na_last :: "string option \<Rightarrow> bool \<times> string" where
  "na_last v = (case v of None \<Rightarrow> (True, []) | Some s \<Rightarrow> (False, s))"

definition sort_values_country_goal_year :: "observation list \<Rightarrow> observation list" where
  "sort_values_country_goal_year df =
     sort_key (\<lambda>r. (na_last (f_country_code r), na_last (f_goal_code r), f_year r)) df"

definition sort_values_year :: "observation list \<Rightarrow> observation list" where
  "sort_values_year df = sort_key f_year df"

text \<open>
  groupby drops the rows with a missing key (dropna = True), orders the groups by key
  and keeps the order of the rows inside a group.
\<close>

definition row_key :: "observation \<Rightarrow> (string \<times> string) option" where
  "row_key r =
     (case (f_country_code r, f_goal_code r) of
        (Some c, Some g) \<Rightarrow> Some (c, g)
      | _ \<Rightarrow> None)"

definition groupby_country_goal ::
  "observation list \<Rightarrow> ((string \<times> string) \<times> observation list) list" where
  "groupby_country_goal df =
     map (\<lambda>k. (k, filter (\<lambda>r. row_key r = Some k) df))
       (sort (remdups (dropna (map row_key df))))"

definition groupby_country :: "observation list \<Rightarrow> (string \<times> observation list) list" where
  "groupby_country df =
     map (\<lambda>c. (c, filter (\<lambda>r. f_country_code r = Some c) df))
       (sort (remdups (dropna (map f_country_code df))))"

subsection \<open>engineer_features\<close>

definition agg_group :: "(string \<times> string) \<times> observation list \<Rightarrow> progress" where
  "agg_group kg =
     (let rows = snd kg in
      \<lparr> country_code = fst (fst kg),
        goal_code = snd (fst kg),
        value_mean = agg_mean (map f_avg_indicator_value rows),
        value_std = agg_std (map f_avg_indicator_value rows),
        value_min = agg_min (map f_avg_indicator_value rows),
        value_max = agg_max (map f_avg_indicator_value rows),
        value_latest = agg_last (map f_avg_indicator_value rows),
        avg_yoy_change = agg_mean (map f_yoy_change rows),
        total_change = agg_sum (map f_yoy_change rows),
        data_points = agg_count (map (\<lambda>r. Some (f_year r)) rows),
        latest_year = agg_max (map (\<lambda>r. Some (f_year r)) rows),
        avg_indicators_measured = agg_mean (map f_indicators_measured rows) \<rparr>)"

definition progress_features :: "observation list \<Rightarrow> progress list" where
  "progress_features df = map agg_group (groupby_country_goal df)"

text \<open>
  GroupBy.last works column by column: each column of the row of a country holds the
  last value of that column that is not missing, in the order of the sorted frame.
\<close>

definition last_attrs :: "observation list \<Rightarrow> country_attrs" where
  "last_attrs rows =
     \<lparr> f_country_name = agg_last (map f_country_name rows),
       f_region = agg_last (map f_region rows),
       f_income_level = agg_last (map f_income_level rows),
       e_gdp_per_capita = agg_last (map e_gdp_per_capita rows),
       e_population = agg_last (map e_population rows),
       e_life_expectancy = agg_last (map e_life_expectancy rows),
       e_adult_literacy_rate = agg_last (map e_adult_literacy_rate rows) \<rparr>"

definition latest_attrs :: "observation list \<Rightarrow> (string \<times> country_attrs) list" where
  "latest_attrs df =
     map (\<lambda>cg. (fst cg, last_attrs (snd cg))) (groupby_country (sort_values_year df))"

text \<open>The columns a left row gets from a matching right row, or from none.\<close>

definition with_attrs :: "progress \<Rightarrow> country_attrs option \<Rightarrow> merged" where
  "with_attrs p a =
     progress.extend p
       (case a of
          None \<Rightarrow> merged.fields None None None None None None None
        | Some x \<Rightarrow>
            merged.fields (f_country_name x) (f_region x) (f_income_level x)
              (e_gdp_per_capita x) (e_population x) (e_life_expectancy x)
              (e_adult_literacy_rate x))"

text \<open>merge(on = country_code, how = left): one row for each match, one row when none.\<close>

definition merge_left :: "progress list \<Rightarrow> (string \<times> country_attrs) list \<Rightarrow> merged list" where
  "merge_left left right =
     concat (map (\<lambda>p.
       (case filter (\<lambda>ca. fst ca = country_code p) right of
          [] \<Rightarrow> [with_attrs p None]
        | m # ms \<Rightarrow> map (\<lambda>ca. with_attrs p (Some (snd ca))) (m # ms))) left)"

text \<open>The block of fillna assignments; the medians are those of the merged frame.\<close>

definition fill_missing :: "merged list \<Rightarrow> merged list" where
  "fill_missing fs =
     (let fs1 = map (\<lambda>r. r\<lparr>value_std := fillna 0 (value_std r)\<rparr>) fs;
          fs2 = map (\<lambda>r. r\<lparr>avg_yoy_change := fillna 0 (avg_yoy_change r)\<rparr>) fs1;
          fs3 = map (\<lambda>r. r\<lparr>total_change := fillna 0 (total_change r)\<rparr>) fs2;
          m_gdp = median (map gdp_per_capita fs3);
          fs4 = map (\<lambda>r. r\<lparr>gdp_per_capita := fillna_with m_gdp (gdp_per_capita r)\<rparr>) fs3;
          m_pop = median (map population fs4);
          fs5 = map (\<lambda>r. r\<lparr>population := fillna_with m_pop (population r)\<rparr>) fs4;
          m_life = median (map life_expectancy fs5);
          fs6 = map (\<lambda>r. r\<lparr>life_expectancy := fillna_with m_life (life_expectancy r)\<rparr>) fs5;
          m_lit = median (map adult_literacy_rate fs6)
      in map (\<lambda>r. r\<lparr>adult_literacy_rate :=
                       fillna_with m_lit (adult_literacy_rate r)\<rparr>) fs6)"

text \<open>
  LabelEncoder: classes_ is the sorted list of the distinct values, the code of a value
  is its position there.
\<close>

definition label_classes :: "string list \<Rightarrow> string list" where
  "label_classes col = sort (remdups col)"

fun index_of :: "'a list \<Rightarrow> 'a \<Rightarrow> nat" where
  "index_of [] v = 0"
| "index_of (x # xs) v = (if x = v then 0 else Suc (index_of xs v))"

definition fit_transform :: "string list \<Rightarrow> nat list" where
  "fit_transform col = map (index_of (label_classes col)) col"

definition fill_unknown :: "string option \<Rightarrow> string" where
  "fill_unknown cell = (case cell of None \<Rightarrow> ''Unknown'' | Some s \<Rightarrow> s)"

definition with_labels :: "merged \<Rightarrow> int \<Rightarrow> nat \<Rightarrow> nat \<Rightarrow> features" where
  "with_labels r t re ie = merged.extend r (features.fields t re ie)"

text \<open>
  engineer_features returns the frame and the two fitted encoders (their classes_).
\<close>

definition engineer_features :: "observation list \<Rightarrow> features list \<times> string list \<times> string list" where
  "engineer_features df0 =
     (let df = sort_values_country_goal_year df0;
          fs = fill_missing (merge_left (progress_features df) (latest_attrs df));
          median_change = median (map avg_yoy_change fs);
          target = map (\<lambda>r. if gt_cell (avg_yoy_change r) median_change then 1 else 0) fs;
          regions = map (\<lambda>r. fill_unknown (region r)) fs;
          incomes = map (\<lambda>r. fill_unknown (income_level r)) fs
      in (map (\<lambda>(r, t, re, ie). with_labels r t re ie)
            (zip fs (zip target (zip (fit_transform regions) (fit_transform incomes)))),
          label_classes regions, label_classes incomes))"

text \<open>
  The frame \<open>features\<close> of engineer_features at the line that computes median_change:
  merged and filled, without the target and the codes.
\<close>

definition features_filled :: "observation list \<Rightarrow> merged list" where
  "features_filled df0 =
     (let df = sort_values_country_goal_year df0
      in fill_missing (merge_left (progress_features df) (latest_attrs df)))"

text \<open>
  What the merge attaches to the rows of a country for one column of latest_attrs:
  the value of an observation of the country that has the column, of the latest year
  among the observations of the country that have it; missing when none has it.
\<close>

definition latest_present ::
  "(observation \<Rightarrow> 'a option) \<Rightarrow> observation list \<Rightarrow> string \<Rightarrow> 'a option \<Rightarrow> bool" where
  "latest_present col df c v =
     (case v of
        None \<Rightarrow> (\<forall>x \<in> set df. f_country_code x = Some c \<longrightarrow> col x = None)
      | Some a \<Rightarrow>
          (\<exists>x \<in> set df. f_country_code x = Some c \<and> col x = Some a
             \<and> (\<forall>y \<in> set df. f_country_code y = Some c \<and> col y \<noteq> None \<longrightarrow>
                  f_year y \<le> f_year x)))"

subsection \<open>train_model\<close>

definition zero_fill :: "real option \<Rightarrow> real" where
  "zero_fill cell = (case cell of None \<Rightarrow> 0 | Some x \<Rightarrow> x)"

text \<open>A row of X = features[feature_cols].fillna(0).\<close>

definition feature_row :: "'a features_scheme \<Rightarrow> real list" where
  "feature_row r =
     [zero_fill (value_mean r), zero_fill (value_std r), zero_fill (value_min r),
      zero_fill (value_max r), zero_fill (value_latest r), zero_fill (avg_yoy_change r),
      zero_fill (total_change r), real (data_points r),
      zero_fill (avg_indicators_measured r), zero_fill (gdp_per_capita r),
      zero_fill (population r), zero_fill (life_expectancy r),
      zero_fill (adult_literacy_rate r), real (region_encoded r),
      real (income_encoded r)]"

text \<open>
  The fitted RandomForestClassifier, as far as the script reads it: \<open>classes\<close> is its
  attribute classes_, the sorted distinct labels of the training split; predict_proba
  has one column for each of them, and \<open>proba1\<close> is the column of index 1 when there
  is one. What the trees learn is a parameter, \<open>learner\<close>. fit accepts a training split
  with a single label.
\<close>

record forest =
  classes :: "int list"
  proba1 :: "real list \<Rightarrow> real"

definition fit ::
  "(real list list \<Rightarrow> int list \<Rightarrow> real list \<Rightarrow> real) \<Rightarrow> real list list \<Rightarrow> int list \<Rightarrow> forest" where
  "fit learner X y = \<lparr> classes = sort (remdups y), proba1 = learner X y \<rparr>"

text \<open>
  train_test_split(test_size = 0.2, random_state = 42): the test part has
  ceil(0.2 * n) rows, the first ones of the seeded permutation of the row numbers
  (the parameter \<open>permutation\<close>); an empty training part is a ValueError.
\<close>

definition train_test_split :: "(nat \<Rightarrow> nat list) \<Rightarrow> nat \<Rightarrow> error + (nat list \<times> nat list)" where
  "train_test_split permutation n =
     (let n_test = (n + 4) div 5; n_train = n - n_test in
      if n_train = 0 then Inl ValueError
      else Inr (drop n_test (permutation n), take n_test (permutation n)))"

text \<open>y_train: the labels of the training part.\<close>

definition y_train :: "(nat \<Rightarrow> nat list) \<Rightarrow> features list \<Rightarrow> int list" where
  "y_train permutation fs =
     map (\<lambda>i. map on_track_2030 fs ! i)
       (drop ((length fs + 4) div 5) (permutation (length fs)))"

definition train_model ::
  "(real list list \<Rightarrow> int list \<Rightarrow> real list \<Rightarrow> real) \<Rightarrow> (nat \<Rightarrow> nat list) \<Rightarrow> features list
     \<Rightarrow> error + forest" where
  "train_model learner permutation fs =
     (let X = map feature_row fs; y = map on_track_2030 fs in
      case train_test_split permutation (length fs) of
        Inl e \<Rightarrow> Inl e
      | Inr (train, test) \<Rightarrow>
          Inr (fit learner (map (\<lambda>i. X ! i) train) (map (\<lambda>i. y ! i) train)))"

subsection \<open>generate_predictions\<close>

text \<open>
  numpy's searchsorted(side = left) on increasing bin edges: the number of edges below x.
\<close>

fun searchsorted_left :: "real list \<Rightarrow> real \<Rightarrow> nat" where
  "searchsorted_left [] x = 0"
| "searchsorted_left (b # bs) x = (if b < x then Suc (searchsorted_left bs x) else 0)"

text \<open>
  pandas.cut with right = True and include_lowest = False: a value at or below the
  first edge, or above the last one, gets no label (NaN).
\<close>

definition pd_cut :: "real list \<Rightarrow> string list \<Rightarrow> real \<Rightarrow> string option" where
  "pd_cut bins labels x =
     (let ids = searchsorted_left bins x in
      if ids = 0 \<or> ids = length bins then None else Some (labels ! (ids - 1)))"

definition bins :: "real list" where
  "bins = [0, 3 / 10, 1 / 2, 7 / 10, 1]"

definition labels :: "string list" where
  "labels = [''Off Track'', ''At Risk'', ''Moderate Progress'', ''On Track'']"

definition with_prediction :: "features \<Rightarrow> real \<Rightarrow> prediction" where
  "with_prediction r p =
     features.extend r
       (prediction.fields p (if p \<ge> 1 / 2 then 1 else 0) (pd_cut bins labels p))"

text \<open>Column 1 of predict_proba is an IndexError when the forest has a single class.\<close>

definition generate_predictions :: "forest \<Rightarrow> features list \<Rightarrow> error + prediction list" where
  "generate_predictions model fs =
     (if length (classes model) < 2 then Inl IndexError
      else Inr (map (\<lambda>r. with_prediction r (proba1 model (feature_row r))) fs))"

subsection \<open>main, up to the export\<close>

definition main ::
  "(real list list \<Rightarrow> int list \<Rightarrow> real list \<Rightarrow> real) \<Rightarrow> (nat \<Rightarrow> nat list) \<Rightarrow> observation list
     \<Rightarrow> error + prediction list" where
  "main learner permutation df =
     (let fs = fst (engineer_features df) in
      case train_model learner permutation fs of
        Inl e \<Rightarrow> Inl e
      | Inr model \<Rightarrow> generate_predictions model fs)"

subsection \<open>Example inputs\<close>

definition example_features :: features where
  "example_features =
     \<lparr> country_code = ''KEN'', goal_code = ''4'',
       value_mean = Some 60, value_std = Some 0, value_min = Some 60,
       value_max = Some 60, value_latest = Some 60,
       avg_yoy_change = Some 0, total_change = Some 0, data_points = 1,
       latest_year = Some 2020, avg_indicators_measured = Some 3,
       country_name = Some ''Kenya'', region = Some ''Africa'',
       income_level = Some ''Lower middle'', gdp_per_capita = Some 2000,
       population = Some 50, life_expectancy = Some 66,
       adult_literacy_rate = Some 80,
       on_track_2030 = 0, region_encoded = 0, income_encoded = 0 \<rparr>"

definition even_forest :: forest where
  "even_forest = \<lparr> classes = [0, 1], proba1 = (\<lambda>x. 1 / 2) \<rparr>"

definition asia_first :: "string option list" where
  "asia_first = [Some ''Asia'', None, Some ''Europe'']"

definition unknown_first :: "string option list" where
  "unknown_first = [Some ''Unknown'', Some ''Europe'', Some ''Asia'', Some ''Europe'']"

definition kenya_2018 :: observation where
  "kenya_2018 =
     \<lparr> f_country_name = Some ''Kenya'', f_region = Some ''Africa'',
       f_income_level = Some ''Lower middle'', e_gdp_per_capita = Some 1800,
       e_population = None, e_life_expectancy = Some 65, e_adult_literacy_rate = None,
       f_country_code = Some ''KEN'', f_goal_code = Some ''4'', f_year = 2018,
       f_indicators_measured = Some 3, f_avg_indicator_value = None,
       f_yoy_change = None \<rparr>"

definition kenya_2019 :: observation where
  "kenya_2019 =
     \<lparr> f_country_name = Some ''Kenya'', f_region = Some ''Africa'',
       f_income_level = Some ''Lower middle'', e_gdp_per_capita = Some 1900,
       e_population = Some 48, e_life_expectancy = Some 66, e_adult_literacy_rate = None,
       f_country_code = Some ''KEN'', f_goal_code = Some ''4'', f_year = 2019,
       f_indicators_measured = Some 3, f_avg_indicator_value = Some 60,
       f_yoy_change = None \<rparr>"

definition kenya_2020 :: observation where
  "kenya_2020 =
     \<lparr> f_country_name = Some ''Kenya'', f_region = Some ''Africa'',
       f_income_level = Some ''Lower middle'', e_gdp_per_capita = None,
       e_population = Some 50, e_life_expectancy = None, e_adult_literacy_rate = None,
       f_country_code = Some ''KEN'', f_goal_code = Some ''4'', f_year = 2020,
       f_indicators_measured = Some 3, f_avg_indicator_value = Some 62,
       f_yoy_change = Some 2 \<rparr>"

definition peru_goal4 :: observation where
  "peru_goal4 =
     \<lparr> f_country_name = Some ''Peru'', f_region = Some ''Americas'',
       f_income_level = Some ''Upper middle'', e_gdp_per_capita = Some 6000,
       e_population = Some 33, e_life_expectancy = Some 76, e_adult_literacy_rate = Some 94,
       f_country_code = Some ''PER'', f_goal_code = Some ''4'', f_year = 2020,
       f_indicators_measured = Some 2, f_avg_indicator_value = Some 80,
       f_yoy_change = Some 5 \<rparr>"

definition peru_goal8 :: observation where
  "peru_goal8 =
     \<lparr> f_country_name = Some ''Peru'', f_region = Some ''Americas'',
       f_income_level = Some ''Upper middle'', e_gdp_per_capita = Some 6000,
       e_population = Some 33, e_life_expectancy = Some 76, e_adult_literacy_rate = Some 94,
       f_country_code = Some ''PER'', f_goal_code = Some ''8'', f_year = 2020,
       f_indicators_measured = Some 2, f_avg_indicator_value = Some 40,
       f_yoy_change = Some (- 1) \<rparr>"

definition no_country :: observation where
  "no_country =
     \<lparr> f_country_name = None, f_region = None,
       f_income_level = None, e_gdp_per_capita = Some 1,
       e_population = Some 1, e_life_expectancy = Some 1, e_adult_literacy_rate = Some 1,
       f_country_code = None, f_goal_code = Some ''4'', f_year = 2020,
       f_indicators_measured = Some 1, f_avg_indicator_value = Some 10,
       f_yoy_change = Some 9 \<rparr>"

definition example_df :: "observation list" where
  "example_df = [peru_goal8, kenya_2020, no_country, kenya_2018, peru_goal4, kenya_2019]"

definition constant_learner :: "real list list \<Rightarrow> int list \<Rightarrow> real list \<Rightarrow> real" where
  "constant_learner X y x = 1 / 2"

definition identity_permutation :: "nat \<Rightarrow> nat list" where
  "identity_permutation n = [0..<n]"

definition kenya_features :: features where
  "kenya_features =
     \<lparr> country_code = ''KEN'', goal_code = ''4'', value_mean = Some 61,
       value_std = Some (sqrt 2), value_min = Some 60, value_max = Some 62,
       value_latest = Some 62, avg_yoy_change = Some 2, total_change = Some 2,
       data_points = 3, latest_year = Some 2020, avg_indicators_measured = Some 3,
       country_name = Some ''Kenya'', region = Some ''Africa'',
       income_level = Some ''Lower middle'', gdp_per_capita = Some 1900,
       population = Some 50, life_expectancy = Some 66, adult_literacy_rate = Some 94,
       on_track_2030 = 0, region_encoded = 0, income_encoded = 0 \<rparr>"

definition peru4_features :: features where
  "peru4_features =
     \<lparr> country_code = ''PER'', goal_code = ''4'', value_mean = Some 80,
       value_std = Some 0, value_min = Some 80, value_max = Some 80,
       value_latest = Some 80, avg_yoy_change = Some 5, total_change = Some 5,
       data_points = 1, latest_year = Some 2020, avg_indicators_measured = Some 2,
       country_name = Some ''Peru'', region = Some ''Americas'',
       income_level = Some ''Upper middle'', gdp_per_capita = Some 6000,
       population = Some 33, life_expectancy = Some 76, adult_literacy_rate = Some 94,
       on_track_2030 = 1, region_encoded = 1, income_encoded = 1 \<rparr>"

definition peru8_features :: features where
  "peru8_features =
     \<lparr> country_code = ''PER'', goal_code = ''8'', value_mean = Some 40,
       value_std = Some 0, value_min = Some 40, value_max = Some 40,
       value_latest = Some 40, avg_yoy_change = Some (- 1), total_change = Some (- 1),
       data_points = 1, latest_year = Some 2020, avg_indicators_measured = Some 2,
       country_name = Some ''Peru'', region = Some ''Americas'',
       income_level = Some ''Upper middle'', gdp_per_capita = Some 6000,
       population = Some 33, life_expectancy = Some 76, adult_literacy_rate = Some 94,
       on_track_2030 = 0, region_encoded = 1, income_encoded = 1 \<rparr>"


definition kenya_merged :: merged where
  "kenya_merged =
     \<lparr> country_code = ''KEN'', goal_code = ''4'', value_mean = Some 61,
       value_std = Some (sqrt 2), value_min = Some 60, value_max = Some 62,
       value_latest = Some 62, avg_yoy_change = Some 2, total_change = Some 2,
       data_points = 3, latest_year = Some 2020, avg_indicators_measured = Some 3,
       country_name = Some ''Kenya'', region = Some ''Africa'',
       income_level = Some ''Lower middle'', gdp_per_capita = Some 1900,
       population = Some 50, life_expectancy = Some 66, adult_literacy_rate = None \<rparr>"

section \<open>Risk categories\<close>

lemma pd_cut_bins_labels:
  "pd_cut bins labels p =
     (if p \<le> 0 then None
      else if p \<le> 3 / 10 then Some ''Off Track''
      else if p \<le> 1 / 2 then Some ''At Risk''
      else if p \<le> 7 / 10 then Some ''Moderate Progress''
      else if p \<le> 1 then Some ''On Track''
      else None)"
  by (simp add: pd_cut_def bins_def labels_def)

lemma prediction_columns:
  "prediction_2030_probability (with_prediction r p) = p"
  "prediction_2030_on_track (with_prediction r p) = (if p \<ge> 1 / 2 then 1 else 0)"
  "prediction_category (with_prediction r p) = pd_cut bins labels p"
  by (simp_all add: with_prediction_def features.defs prediction.defs)

text \<open>
  C1, as the code has it. Both columns are computed from the probability alone, by two
  separate rules: prediction_2030_on_track is 1 exactly when the probability is at
  least 0.5, and the category is the bin of pandas.cut. The bins are closed on the
  right, so the probability 0.5 gives on-track 1 with the category At Risk (not
  Moderate Progress), and 0.49999 gives on-track 0 with the category At Risk.
\<close>

theorem on_track_and_category_from_probability:
  assumes "generate_predictions model fs = Inr ps" and "r \<in> set ps"
  shows "(prediction_2030_on_track r = 1 \<longleftrightarrow> prediction_2030_probability r \<ge> 1 / 2)
       \<and> (prediction_2030_on_track r = 0 \<longleftrightarrow> prediction_2030_probability r < 1 / 2)
       \<and> prediction_category r = pd_cut bins labels (prediction_2030_probability r)
       \<and> (prediction_2030_probability r = 1 / 2 \<longrightarrow>
            prediction_2030_on_track r = 1 \<and> prediction_category r = Some ''At Risk'')
       \<and> (prediction_2030_probability r = 49999 / 100000 \<longrightarrow>
            prediction_2030_on_track r = 0 \<and> prediction_category r = Some ''At Risk'')"
proof -
  from assms obtain q where r: "r = with_prediction q (proba1 model (feature_row q))"
    by (auto simp: generate_predictions_def split: if_splits)
  show ?thesis
    unfolding r prediction_columns by (simp add: pd_cut_bins_labels)
qed

theorem on_track_and_category_from_probability_witness:
  "generate_predictions even_forest [example_features]
     = Inr [with_prediction example_features (1 / 2)]
   \<and> prediction_2030_on_track (with_prediction example_features (1 / 2)) = 1
   \<and> prediction_category (with_prediction example_features (1 / 2)) = Some ''At Risk''"
proof -
  have g: "generate_predictions even_forest [example_features]
             = Inr [with_prediction example_features (1 / 2)]"
    by (simp add: generate_predictions_def even_forest_def)
  have m: "with_prediction example_features (1 / 2)
             \<in> set [with_prediction example_features (1 / 2)]"
    by simp
  show ?thesis
    using g on_track_and_category_from_probability [OF g m]
    by (simp add: prediction_columns)
qed

text \<open>
  C1, as the specification states it, fails at the probability 0.5: the row is on
  track, and its category is At Risk.
\<close>

theorem half_is_at_risk_counterexample:
  "map_sum id (map (\<lambda>r. (prediction_2030_probability r, prediction_2030_on_track r,
       prediction_category r))) (generate_predictions even_forest [example_features])
     = Inr [(1 / 2, 1, Some ''At Risk'')]
   \<and> Some ''At Risk'' \<noteq> Some ''Moderate Progress''"
  by (simp add: generate_predictions_def even_forest_def prediction_columns
      pd_cut_bins_labels)

lemma pd_cut_in_labels:
  assumes "0 < p" and "p \<le> 1"
  shows "\<exists>c. c \<in> set labels \<and> pd_cut bins labels p = Some c"
  using assms unfolding pd_cut_bins_labels by (simp add: labels_def)

text \<open>
  C2, as the code has it. Every probability p with 0 < p \<le> 1 gets exactly one of the
  four categories, by the intervals (0, 0.3], (0.3, 0.5], (0.5, 0.7], (0.7, 1], closed
  on the right: each of 0.3, 0.5, 0.7 falls in the lower of its two intervals.
\<close>

theorem category_partition:
  assumes "0 < p" and "p \<le> 1"
  shows "(\<exists>!c. c \<in> set labels \<and> pd_cut bins labels p = Some c)
       \<and> (pd_cut bins labels p = Some ''Off Track'' \<longleftrightarrow> p \<le> 3 / 10)
       \<and> (pd_cut bins labels p = Some ''At Risk'' \<longleftrightarrow> 3 / 10 < p \<and> p \<le> 1 / 2)
       \<and> (pd_cut bins labels p = Some ''Moderate Progress'' \<longleftrightarrow> 1 / 2 < p \<and> p \<le> 7 / 10)
       \<and> (pd_cut bins labels p = Some ''On Track'' \<longleftrightarrow> 7 / 10 < p)"
proof -
  from pd_cut_in_labels [OF assms] obtain c
    where c: "c \<in> set labels" "pd_cut bins labels p = Some c" by blast
  have "\<exists>!c. c \<in> set labels \<and> pd_cut bins labels p = Some c"
  proof (rule ex1I [of _ c])
    show "c \<in> set labels \<and> pd_cut bins labels p = Some c" using c by simp
  next
    fix d assume "d \<in> set labels \<and> pd_cut bins labels p = Some d"
    then show "d = c" using c by simp
  qed
  moreover have "pd_cut bins labels p = Some ''Off Track'' \<longleftrightarrow> p \<le> 3 / 10"
    using assms by (simp add: pd_cut_bins_labels)
  moreover have "pd_cut bins labels p = Some ''At Risk'' \<longleftrightarrow> 3 / 10 < p \<and> p \<le> 1 / 2"
    using assms by (simp add: pd_cut_bins_labels)
  moreover have
    "pd_cut bins labels p = Some ''Moderate Progress'' \<longleftrightarrow> 1 / 2 < p \<and> p \<le> 7 / 10"
    using assms by (simp add: pd_cut_bins_labels)
  moreover have "pd_cut bins labels p = Some ''On Track'' \<longleftrightarrow> 7 / 10 < p"
    using assms by (simp add: pd_cut_bins_labels)
  ultimately show ?thesis by blast
qed

theorem category_partition_witness:
  "(0::real) < 1 / 2 \<and> (1::real) / 2 \<le> 1
   \<and> pd_cut bins labels (1 / 2) = Some ''At Risk''
   \<and> pd_cut bins labels (1 / 2) \<noteq> Some ''Moderate Progress''"
proof -
  have a: "(0::real) < 1 / 2" and b: "(1::real) / 2 \<le> 1" by simp_all
  show ?thesis using category_partition [OF a b] by simp
qed

text \<open>
  C2, as the specification states it, fails: each of the boundary values 0.3, 0.5, 0.7
  gets the category of the interval below it, and the probability 0 gets no category.
\<close>

theorem category_boundaries_counterexample:
  "pd_cut bins labels (3 / 10) = Some ''Off Track''
   \<and> pd_cut bins labels (1 / 2) = Some ''At Risk''
   \<and> pd_cut bins labels (7 / 10) = Some ''Moderate Progress''
   \<and> pd_cut bins labels 0 = None"
  by (simp add: pd_cut_bins_labels)

section \<open>The categorical encoder\<close>

lemma label_classes_cong:
  assumes "set xs = set ys"
  shows "label_classes xs = label_classes ys"
proof (rule sorted_distinct_set_unique)
  show "set (label_classes xs) = set (label_classes ys)"
    using assms by (simp add: label_classes_def)
qed (simp_all add: label_classes_def)

text \<open>
  C8. Two columns with the same set of distinct values, once the missing cells are
  replaced by Unknown, give the same classes and hence the same code for every value,
  whatever the order and the number of their rows: equal values in the two columns are
  encoded alike.
\<close>

theorem encoder_order_independent:
  assumes "set (map fill_unknown col1) = set (map fill_unknown col2)"
  shows "label_classes (map fill_unknown col1) = label_classes (map fill_unknown col2)
       \<and> (\<forall>v. index_of (label_classes (map fill_unknown col1)) v
              = index_of (label_classes (map fill_unknown col2)) v)
       \<and> (\<forall>i j. i < length col1 \<and> j < length col2
              \<and> fill_unknown (col1 ! i) = fill_unknown (col2 ! j) \<longrightarrow>
            fit_transform (map fill_unknown col1) ! i
              = fit_transform (map fill_unknown col2) ! j)"
  using label_classes_cong [OF assms] by (simp add: fit_transform_def)

theorem encoder_order_independent_witness:
  "set (map fill_unknown asia_first) = set (map fill_unknown unknown_first)
   \<and> label_classes (map fill_unknown asia_first) = [''Asia'', ''Europe'', ''Unknown'']
   \<and> label_classes (map fill_unknown unknown_first) = [''Asia'', ''Europe'', ''Unknown'']
   \<and> fit_transform (map fill_unknown asia_first) = [0, 2, 1]
   \<and> fit_transform (map fill_unknown unknown_first) = [2, 1, 0, 1]"
proof -
  have s: "set (map fill_unknown asia_first) = set (map fill_unknown unknown_first)"
    by (auto simp: asia_first_def unknown_first_def fill_unknown_def)
  have a: "label_classes (map fill_unknown asia_first) = [''Asia'', ''Europe'', ''Unknown'']"
    by (simp add: asia_first_def fill_unknown_def label_classes_def)
  have b: "fit_transform (map fill_unknown asia_first) = [0, 2, 1]"
    unfolding fit_transform_def a by (simp add: asia_first_def fill_unknown_def)
  have c: "fit_transform (map fill_unknown unknown_first) = [2, 1, 0, 1]"
    unfolding fit_transform_def
      conjunct1 [OF encoder_order_independent [OF s], symmetric] a
    by (simp add: unknown_first_def fill_unknown_def)
  show ?thesis
    using s a b c encoder_order_independent [OF s] by simp
qed

section \<open>The frame that engineer_features returns\<close>

lemma zip_columns:
  "map F (zip xs (zip (map f xs) (zip (map g xs) (map h xs))))
     = map (\<lambda>x. F (x, f x, g x, h x)) xs"
  by (induction xs) auto

lemma engineer_features_rows:
  "fst (engineer_features df0) =
     map (\<lambda>r. with_labels r
            (if gt_cell (avg_yoy_change r) (median (map avg_yoy_change (features_filled df0)))
             then 1 else 0)
            (index_of (label_classes (map (\<lambda>r. fill_unknown (region r)) (features_filled df0)))
               (fill_unknown (region r)))
            (index_of (label_classes (map (\<lambda>r. fill_unknown (income_level r)) (features_filled df0)))
               (fill_unknown (income_level r))))
       (features_filled df0)"
  by (simp add: engineer_features_def features_filled_def Let_def fit_transform_def
      zip_columns comp_def)

lemma with_labels_columns:
  "country_code (with_labels r t re ie) = country_code r"
  "goal_code (with_labels r t re ie) = goal_code r"
  "value_std (with_labels r t re ie) = value_std r"
  "avg_yoy_change (with_labels r t re ie) = avg_yoy_change r"
  "data_points (with_labels r t re ie) = data_points r"
  "on_track_2030 (with_labels r t re ie) = t"
  "region_encoded (with_labels r t re ie) = re"
  "income_encoded (with_labels r t re ie) = ie"
  by (simp_all add: with_labels_def merged.defs features.defs)

lemma fill_missing_rows:
  "fill_missing fs =
     map (\<lambda>r. r\<lparr> value_std := fillna 0 (value_std r),
                 avg_yoy_change := fillna 0 (avg_yoy_change r),
                 total_change := fillna 0 (total_change r),
                 gdp_per_capita := fillna_with (median (map gdp_per_capita fs)) (gdp_per_capita r),
                 population := fillna_with (median (map population fs)) (population r),
                 life_expectancy :=
                   fillna_with (median (map life_expectancy fs)) (life_expectancy r),
                 adult_literacy_rate :=
                   fillna_with (median (map adult_literacy_rate fs)) (adult_literacy_rate r) \<rparr>)
       fs"
  by (simp add: fill_missing_def Let_def comp_def)

section \<open>The median and the target\<close>

lemma filter_gt_sorted:
  fixes s :: "real list"
  assumes "sorted s" and "j < length s" and "s ! j \<le> m"
  shows "length (filter (\<lambda>x. m < x) s) \<le> length s - Suc j"
proof -
  have "\<forall>x \<in> set (take (Suc j) s). x \<le> m"
  proof
    fix x assume "x \<in> set (take (Suc j) s)"
    then obtain i where "i < Suc j" "i < length s" "x = s ! i"
      by (auto simp: in_set_conv_nth)
    then have "x \<le> s ! j" using assms(1,2) by (auto intro: sorted_nth_mono)
    then show "x \<le> m" using assms(3) by simp
  qed
  then have "filter (\<lambda>x. m < x) (take (Suc j) s) = []"
    by (auto simp: filter_empty_conv)
  then have "filter (\<lambda>x. m < x) s = filter (\<lambda>x. m < x) (drop (Suc j) s)"
    by (metis append_Nil append_take_drop_id filter_append)
  then have "length (filter (\<lambda>x. m < x) s) \<le> length (drop (Suc j) s)"
    by (metis length_filter_le)
  then show ?thesis by simp
qed

lemma dropna_map_Some: "dropna (map Some xs) = xs"
  by (induction xs) auto

lemma length_filter_sort:
  "length (filter P (sort xs)) = length (filter P xs)"
  by (simp add: filter_sort)

lemma sort_eq_Nil: "sort xs = [] \<longleftrightarrow> xs = []"
  by (metis length_0_conv length_sort)

lemma median_odd:
  assumes "odd (length xs)"
  shows "median (map Some xs) = Some (sort xs ! (length xs div 2))"
proof -
  have "length xs \<noteq> 0" using assms by (cases xs) auto
  then show ?thesis
    using assms by (simp add: median_def Let_def dropna_map_Some sort_eq_Nil)
qed

lemma median_even:
  assumes "even (length xs)" and "xs \<noteq> []"
  shows "median (map Some xs)
           = Some ((sort xs ! (length xs div 2 - 1) + sort xs ! (length xs div 2)) / 2)"
  using assms by (simp add: median_def Let_def dropna_map_Some sort_eq_Nil)

lemma median_None: "median (map Some xs) = None \<longleftrightarrow> xs = []"
proof (cases "xs = []")
  case True
  then show ?thesis by (simp add: median_def)
next
  case False
  then show ?thesis
    using median_odd [of xs] median_even [of xs] by (cases "odd (length xs)") simp_all
qed

lemma count_above_median:
  assumes "median (map Some xs) = Some m"
  shows "length (filter (\<lambda>x. m < x) xs) \<le> length xs div 2"
proof -
  let ?s = "sort xs"
  let ?n = "length xs"
  have ne: "xs \<noteq> []" using assms median_None [of xs] by auto
  have "length (filter (\<lambda>x. m < x) ?s) \<le> ?n div 2"
  proof (cases "odd ?n")
    case True
    then have m: "?s ! (?n div 2) = m"
      using assms median_odd [of xs] by simp
    have "length (filter (\<lambda>x. m < x) ?s) \<le> length ?s - Suc (?n div 2)"
      by (rule filter_gt_sorted) (use ne m in auto)
    also have "\<dots> \<le> ?n div 2" using True by (auto elim!: oddE)
    finally show ?thesis .
  next
    case False
    then have m: "m = (?s ! (?n div 2 - 1) + ?s ! (?n div 2)) / 2"
      using assms ne median_even [of xs] by simp
    have "?n \<noteq> 0" "?n \<noteq> 1" using False ne by auto
    then have two: "2 \<le> ?n" by arith
    have "?s ! (?n div 2 - 1) \<le> ?s ! (?n div 2)"
      by (rule sorted_nth_mono) (use two in auto)
    then have le: "?s ! (?n div 2 - 1) \<le> m" using m by simp
    have "length (filter (\<lambda>x. m < x) ?s) \<le> length ?s - Suc (?n div 2 - 1)"
      by (rule filter_gt_sorted) (use two le in auto)
    also have "\<dots> \<le> ?n div 2" using False two by (auto elim!: evenE)
    finally show ?thesis .
  qed
  then show ?thesis by (simp add: length_filter_sort)
qed

lemma median_const:
  assumes "xs \<noteq> []" and "\<forall>x \<in> set xs. x = v"
  shows "median (map Some xs) = Some v"
proof -
  let ?s = "sort xs"
  have all: "\<And>i. i < length xs \<Longrightarrow> ?s ! i = v"
    using assms(2) by (metis length_sort nth_mem set_sort)
  have pos: "0 < length xs" using assms(1) by simp
  have a: "?s ! (length xs div 2) = v" using pos by (intro all) simp
  have b: "?s ! (length xs div 2 - 1) = v" using pos by (intro all) arith
  show ?thesis
  proof (cases "odd (length xs)")
    case True then show ?thesis using median_odd [of xs] a by simp
  next
    case False then show ?thesis using median_even [of xs] assms(1) a b by simp
  qed
qed

lemma fillna_zero_fill: "fillna 0 c = Some (zero_fill c)"
  by (cases c) (simp_all add: fillna_def zero_fill_def)

lemma avg_yoy_change_filled:
  "map avg_yoy_change (features_filled df0)
     = map Some (dropna (map avg_yoy_change (features_filled df0)))"
proof -
  have "map avg_yoy_change (fill_missing fs)
          = map Some (map (\<lambda>r. zero_fill (avg_yoy_change r)) fs)" for fs
    by (subst fill_missing_rows) (simp add: comp_def fillna_zero_fill)
  then obtain xs where "map avg_yoy_change (features_filled df0) = map Some xs"
    unfolding features_filled_def Let_def by blast
  then show ?thesis by (simp add: dropna_map_Some)
qed

lemma avg_yoy_change_engineered:
  "map avg_yoy_change (fst (engineer_features df0)) = map avg_yoy_change (features_filled df0)"
  by (simp add: engineer_features_rows comp_def with_labels_columns)

lemma on_track_2030_engineered:
  "map on_track_2030 (fst (engineer_features df0))
     = map (\<lambda>c. if gt_cell c (median (map avg_yoy_change (features_filled df0))) then 1 else 0)
         (map avg_yoy_change (features_filled df0))"
  by (simp add: engineer_features_rows comp_def with_labels_columns)

lemma length_engineered: "length (fst (engineer_features df0)) = length (features_filled df0)"
  by (simp add: engineer_features_rows)

lemma count_positive_column:
  "length (filter (\<lambda>r. f r = (1::int)) rs) = length (filter (\<lambda>t. t = 1) (map f rs))"
  by (induction rs) auto

text \<open>
  C10. In the frame that engineer_features returns, the rows with on_track_2030 = 1
  are at most half of the rows (rounded down): the target asks for a change strictly
  above the median of the column, and avg_yoy_change has no missing cell after fillna.
\<close>

theorem positive_class_at_most_half:
  "length (filter (\<lambda>r. on_track_2030 r = 1) (fst (engineer_features df)))
     \<le> length (fst (engineer_features df)) div 2"
proof -
  define xs where "xs = dropna (map avg_yoy_change (features_filled df))"
  have col: "map avg_yoy_change (features_filled df) = map Some xs"
    unfolding xs_def by (rule avg_yoy_change_filled)
  have len: "length (fst (engineer_features df)) = length xs"
    using col length_engineered [of df] by (metis length_map)
  have "length (filter (\<lambda>r. on_track_2030 r = 1) (fst (engineer_features df)))
          = length (filter (\<lambda>t. t = 1) (map on_track_2030 (fst (engineer_features df))))"
    by (rule count_positive_column)
  also have "\<dots> = length (filter (\<lambda>x. gt_cell (Some x) (median (map Some xs))) xs)"
    unfolding on_track_2030_engineered col by (simp add: filter_map comp_def)
  also have "\<dots> \<le> length xs div 2"
  proof (cases "median (map Some xs)")
    case None
    then show ?thesis by (simp add: gt_cell_def)
  next
    case (Some m)
    then show ?thesis using count_above_median [OF Some] by (simp add: gt_cell_def)
  qed
  finally show ?thesis using len by simp
qed

text \<open>
  C3. For every row r of the frame that engineer_features returns: avg_yoy_change is
  present, the median of the column over the whole frame is defined, and
  on_track_2030 is 1 when the change of r is strictly above that median and 0
  otherwise. In particular, when every row has the same change, that change is the
  median and every row gets on_track_2030 = 0.
\<close>

theorem on_track_iff_above_median:
  assumes "r \<in> set (fst (engineer_features df))"
  shows "\<exists>x m. avg_yoy_change r = Some x
           \<and> median (map avg_yoy_change (fst (engineer_features df))) = Some m
           \<and> (on_track_2030 r = 1 \<longleftrightarrow> m < x)
           \<and> (on_track_2030 r = 0 \<longleftrightarrow> x \<le> m)
           \<and> ((\<forall>q \<in> set (fst (engineer_features df)). avg_yoy_change q = Some x) \<longrightarrow>
                m = x \<and> (\<forall>q \<in> set (fst (engineer_features df)). on_track_2030 q = 0))"
proof -
  define xs where "xs = dropna (map avg_yoy_change (features_filled df))"
  have col: "map avg_yoy_change (features_filled df) = map Some xs"
    unfolding xs_def by (rule avg_yoy_change_filled)
  have col': "map avg_yoy_change (fst (engineer_features df)) = map Some xs"
    using col by (simp add: avg_yoy_change_engineered)
  from assms obtain q where q: "q \<in> set (features_filled df)"
    and r: "r = with_labels q
            (if gt_cell (avg_yoy_change q) (median (map avg_yoy_change (features_filled df)))
             then 1 else 0)
            (index_of (label_classes (map (\<lambda>r. fill_unknown (region r)) (features_filled df)))
               (fill_unknown (region q)))
            (index_of (label_classes (map (\<lambda>r. fill_unknown (income_level r)) (features_filled df)))
               (fill_unknown (income_level q)))"
    unfolding engineer_features_rows by auto
  from q have "avg_yoy_change q \<in> set (map Some xs)" unfolding col [symmetric] by simp
  then obtain x where x: "avg_yoy_change q = Some x" "x \<in> set xs" by auto
  then have "xs \<noteq> []" by auto
  then obtain m where m: "median (map Some xs) = Some m"
    using median_None [of xs] by (cases "median (map Some xs)") auto
  have rx: "avg_yoy_change r = Some x" using x r by (simp add: with_labels_columns)
  have rt: "on_track_2030 r = (if m < x then 1 else 0)"
    using r x m col by (simp add: with_labels_columns gt_cell_def)
  have all: "m = x \<and> (\<forall>q \<in> set (fst (engineer_features df)). on_track_2030 q = 0)"
    if eq: "\<forall>q \<in> set (fst (engineer_features df)). avg_yoy_change q = Some x"
  proof -
    have "\<forall>c \<in> set (map avg_yoy_change (fst (engineer_features df))). c = Some x"
      using eq by auto
    then have c: "\<forall>y \<in> set xs. y = x" unfolding col' by auto
    have mx: "m = x" using median_const [OF \<open>xs \<noteq> []\<close> c] m by simp
    have "\<forall>t \<in> set (map on_track_2030 (fst (engineer_features df))). t = 0"
      unfolding on_track_2030_engineered col m using c mx by (auto simp: gt_cell_def)
    then show ?thesis using mx by auto
  qed
  show ?thesis
    using rx rt m col' all by auto
qed

section \<open>Grouping and merging\<close>

lemma set_dropna: "set (dropna col) = {x. Some x \<in> set col}"
  by (induction col rule: dropna.induct) auto

lemma row_key_eq:
  "row_key r = Some (c, g) \<longleftrightarrow> f_country_code r = Some c \<and> f_goal_code r = Some g"
  by (auto simp: row_key_def split: option.splits)

lemma sorted_remdups_cong:
  fixes xs ys :: "('a::linorder) list"
  assumes "set xs = set ys"
  shows "sort (remdups xs) = sort (remdups ys)"
  by (rule sorted_distinct_set_unique) (simp_all add: assms)

lemma filter_unique_key:
  assumes "distinct (map f xs)" and "x \<in> set xs"
  shows "filter (\<lambda>y. f y = f x) xs = [x]"
  using assms
proof (induction xs)
  case Nil
  then show ?case by simp
next
  case (Cons a xs)
  show ?case
  proof (cases "a = x")
    case True
    have "f x \<notin> f ` set xs" using Cons.prems(1) True by simp
    then have "\<forall>y \<in> set xs. f y \<noteq> f x" by (metis imageI)
    then have "filter (\<lambda>y. f y = f x) xs = []" by (simp add: filter_empty_conv)
    then show ?thesis using True by simp
  next
    case False
    then have "x \<in> set xs" using Cons.prems(2) by simp
    moreover have "f a \<noteq> f x" using Cons.prems(1) \<open>x \<in> set xs\<close> by auto
    ultimately show ?thesis using Cons by simp
  qed
qed

lemma filter_right_map_of:
  assumes "distinct (map fst right)"
  shows "filter (\<lambda>ca. fst ca = c) right
           = (case map_of right c of None \<Rightarrow> [] | Some a \<Rightarrow> [(c, a)])"
  using assms
proof (induction right)
  case Nil
  then show ?case by simp
next
  case (Cons x right)
  obtain c' a' where x: "x = (c', a')" by (cases x)
  show ?case
  proof (cases "c' = c")
    case True
    then have "c \<notin> fst ` set right" using Cons.prems x by auto
    then have "map_of right c = None" by (simp add: map_of_eq_None_iff)
    then show ?thesis using Cons x True by simp
  next
    case False
    then show ?thesis using Cons x by auto
  qed
qed

lemma merge_left_distinct:
  assumes "distinct (map fst right)"
  shows "merge_left left right = map (\<lambda>p. with_attrs p (map_of right (country_code p))) left"
proof -
  have "(case filter (\<lambda>ca. fst ca = country_code p) right of
           [] \<Rightarrow> [with_attrs p None]
         | m # ms \<Rightarrow> map (\<lambda>ca. with_attrs p (Some (snd ca))) (m # ms))
        = [with_attrs p (map_of right (country_code p))]" for p
    unfolding filter_right_map_of [OF assms]
    by (cases "map_of right (country_code p)") simp_all
  then show ?thesis by (simp add: merge_left_def)
qed

lemma latest_attrs_keys:
  "map fst (latest_attrs df) = sort (remdups (dropna (map f_country_code df)))"
proof -
  have "set (dropna (map f_country_code (sort_values_year df)))
          = set (dropna (map f_country_code df))"
    by (simp add: set_dropna sort_values_year_def)
  from sorted_remdups_cong [OF this] show ?thesis
    by (simp add: latest_attrs_def groupby_country_def comp_def)
qed

lemma distinct_latest_attrs: "distinct (map fst (latest_attrs df))"
  by (simp add: latest_attrs_keys)

lemma map_of_latest_attrs:
  assumes "ob \<in> set df" and "f_country_code ob = Some c"
  shows "map_of (latest_attrs df) c
           = Some (last_attrs (filter (\<lambda>r. f_country_code r = Some c) (sort_values_year df)))"
proof -
  have "c \<in> set (dropna (map f_country_code (sort_values_year df)))"
    using assms by (force simp: set_dropna sort_values_year_def)
  then have "(c, last_attrs (filter (\<lambda>r. f_country_code r = Some c) (sort_values_year df)))
               \<in> set (latest_attrs df)"
    by (auto simp: latest_attrs_def groupby_country_def)
  then show ?thesis
    using distinct_latest_attrs [of df] by (simp add: map_of_eq_Some_iff)
qed

lemma dropna_map_present: "dropna (map (\<lambda>r. Some (f r)) rows) = map f rows"
  by (induction rows) auto

lemma agg_group_columns:
  "country_code (agg_group (k, rows)) = fst k"
  "goal_code (agg_group (k, rows)) = snd k"
  "data_points (agg_group (k, rows)) = length rows"
  "value_std (agg_group (k, rows)) = agg_std (map f_avg_indicator_value rows)"
  "avg_yoy_change (agg_group (k, rows)) = agg_mean (map f_yoy_change rows)"
  by (simp_all add: agg_group_def Let_def agg_count_def dropna_map_present)

lemma progress_features_keys:
  "map (\<lambda>p. (country_code p, goal_code p)) (progress_features df)
     = sort (remdups (dropna (map row_key df)))"
  by (simp add: progress_features_def groupby_country_goal_def comp_def agg_group_columns)

lemma progress_features_row:
  assumes "ob \<in> set df" and "row_key ob = Some k"
  shows "filter (\<lambda>p. (country_code p, goal_code p) = k) (progress_features df)
           = [agg_group (k, filter (\<lambda>r. row_key r = Some k) df)]"
proof -
  let ?p = "agg_group (k, filter (\<lambda>r. row_key r = Some k) df)"
  have "k \<in> set (sort (remdups (dropna (map row_key df))))"
    using assms by (force simp: set_dropna)
  then have mem: "?p \<in> set (progress_features df)"
    by (auto simp: progress_features_def groupby_country_goal_def)
  have key: "(country_code ?p, goal_code ?p) = k"
    by (simp add: agg_group_columns)
  have "distinct (map (\<lambda>p. (country_code p, goal_code p)) (progress_features df))"
    by (simp add: progress_features_keys)
  from filter_unique_key [OF this mem] show ?thesis
    unfolding key .
qed

lemma group_of_sorted:
  "filter P (sort_values_country_goal_year df) = sort_values_country_goal_year (filter P df)"
  by (simp add: sort_values_country_goal_year_def filter_sort)

lemma set_sort_values [simp]:
  "set (sort_values_country_goal_year df) = set df"
  "set (sort_values_year df) = set df"
  by (simp_all add: sort_values_country_goal_year_def sort_values_year_def)

lemma length_sort_values [simp]:
  "length (sort_values_country_goal_year df) = length df"
  by (simp add: sort_values_country_goal_year_def)

section \<open>One row for each group\<close>

lemma with_attrs_columns:
  "country_code (with_attrs p a) = country_code p"
  "goal_code (with_attrs p a) = goal_code p"
  "data_points (with_attrs p a) = data_points p"
  "value_std (with_attrs p a) = value_std p"
  "avg_yoy_change (with_attrs p a) = avg_yoy_change p"
  by (simp_all add: with_attrs_def progress.defs merged.defs split: option.splits)

lemma engineered_rows_of_progress:
  "\<exists>G. fst (engineer_features df0) = map G (progress_features (sort_values_country_goal_year df0))
       \<and> (\<forall>p. country_code (G p) = country_code p
              \<and> goal_code (G p) = goal_code p
              \<and> data_points (G p) = data_points p
              \<and> value_std (G p) = fillna 0 (value_std p)
              \<and> avg_yoy_change (G p) = fillna 0 (avg_yoy_change p))"
proof -
  let ?df = "sort_values_country_goal_year df0"
  let ?la = "latest_attrs ?df"
  let ?A = "\<lambda>p. with_attrs p (map_of ?la (country_code p))"
  have m: "merge_left (progress_features ?df) ?la = map ?A (progress_features ?df)"
    by (rule merge_left_distinct) (rule distinct_latest_attrs)
  obtain F where F: "fill_missing (map ?A (progress_features ?df)) = map F (map ?A (progress_features ?df))"
    and Fc: "\<And>r. country_code (F r) = country_code r \<and> goal_code (F r) = goal_code r
              \<and> data_points (F r) = data_points r
              \<and> value_std (F r) = fillna 0 (value_std r)
              \<and> avg_yoy_change (F r) = fillna 0 (avg_yoy_change r)"
    using fill_missing_rows [of "map ?A (progress_features ?df)"] by fastforce
  have ff: "features_filled df0 = map (\<lambda>p. F (?A p)) (progress_features ?df)"
    by (simp add: features_filled_def Let_def m F comp_def)
  obtain L where L: "fst (engineer_features df0) = map L (features_filled df0)"
    and Lc: "\<And>r. country_code (L r) = country_code r \<and> goal_code (L r) = goal_code r
              \<and> data_points (L r) = data_points r
              \<and> value_std (L r) = value_std r
              \<and> avg_yoy_change (L r) = avg_yoy_change r"
    using engineer_features_rows [of df0] by (fastforce simp: with_labels_columns)
  have "fst (engineer_features df0) = map (\<lambda>p. L (F (?A p))) (progress_features ?df)"
    by (simp add: L ff comp_def)
  moreover have "\<forall>p. country_code (L (F (?A p))) = country_code p
              \<and> goal_code (L (F (?A p))) = goal_code p
              \<and> data_points (L (F (?A p))) = data_points p
              \<and> value_std (L (F (?A p))) = fillna 0 (value_std p)
              \<and> avg_yoy_change (L (F (?A p))) = fillna 0 (avg_yoy_change p)"
    by (simp add: Lc Fc with_attrs_columns)
  ultimately show ?thesis by blast
qed

lemma engineered_row_of_key:
  assumes "ob \<in> set df" and "f_country_code ob = Some c" and "f_goal_code ob = Some g"
  shows "\<exists>r. filter (\<lambda>r. country_code r = c \<and> goal_code r = g) (fst (engineer_features df)) = [r]
           \<and> data_points r
               = length (filter (\<lambda>x. f_country_code x = Some c \<and> f_goal_code x = Some g) df)
           \<and> value_std r = fillna 0 (agg_std (map f_avg_indicator_value
               (sort_values_country_goal_year
                 (filter (\<lambda>x. f_country_code x = Some c \<and> f_goal_code x = Some g) df))))
           \<and> avg_yoy_change r = fillna 0 (agg_mean (map f_yoy_change
               (sort_values_country_goal_year
                 (filter (\<lambda>x. f_country_code x = Some c \<and> f_goal_code x = Some g) df))))"
proof -
  let ?df = "sort_values_country_goal_year df"
  let ?rows = "filter (\<lambda>x. f_country_code x = Some c \<and> f_goal_code x = Some g) df"
  obtain G where G: "fst (engineer_features df) = map G (progress_features ?df)"
    and Gc: "\<And>p. country_code (G p) = country_code p \<and> goal_code (G p) = goal_code p
              \<and> data_points (G p) = data_points p
              \<and> value_std (G p) = fillna 0 (value_std p)
              \<and> avg_yoy_change (G p) = fillna 0 (avg_yoy_change p)"
    using engineered_rows_of_progress [of df] by blast
  have k: "row_key ob = Some (c, g)" using assms by (simp add: row_key_eq)
  have "ob \<in> set ?df" using assms(1) by simp
  from progress_features_row [OF this k]
  have p: "filter (\<lambda>p. (country_code p, goal_code p) = (c, g)) (progress_features ?df)
             = [agg_group ((c, g), sort_values_country_goal_year ?rows)]"
    by (simp add: row_key_eq group_of_sorted)
  have "filter (\<lambda>r. country_code r = c \<and> goal_code r = g) (fst (engineer_features df))
          = map G (filter (\<lambda>p. (country_code p, goal_code p) = (c, g)) (progress_features ?df))"
    by (simp add: G filter_map comp_def Gc)
  then have "filter (\<lambda>r. country_code r = c \<and> goal_code r = g) (fst (engineer_features df))
          = [G (agg_group ((c, g), sort_values_country_goal_year ?rows))]"
    unfolding p by simp
  then show ?thesis
    by (simp add: Gc agg_group_columns)
qed

text \<open>
  C9. For every key (country_code, goal_code) that some observation of the batch
  carries, the frame that engineer_features returns has exactly one row with that key,
  and the data_points of that row is the number of observations of the batch with that
  key.
\<close>

theorem one_feature_record_per_key:
  assumes "ob \<in> set df" and "f_country_code ob = Some c" and "f_goal_code ob = Some g"
  shows "\<exists>r. filter (\<lambda>r. country_code r = c \<and> goal_code r = g) (fst (engineer_features df)) = [r]
           \<and> data_points r
               = length (filter (\<lambda>x. f_country_code x = Some c \<and> f_goal_code x = Some g) df)"
  using engineered_row_of_key [OF assms] by blast

lemma sort_values_single [simp]: "sort_values_country_goal_year [x] = [x]"
  by (simp add: sort_values_country_goal_year_def)

lemma agg_single:
  "agg_std [c] = None"
  "agg_mean [c] = c"
  by (cases c; simp add: agg_std_def agg_mean_def)+

text \<open>
  C4, as the code has it. A group with exactly one observation gives one row with
  value_std = 0 (the standard deviation of one value is NaN, and fillna makes it 0).
  Its avg_yoy_change is the yoy_change of that observation, and 0 only when that
  yoy_change is missing: the mean of one value is the value.
\<close>

theorem single_observation_group:
  assumes "filter (\<lambda>x. f_country_code x = Some c \<and> f_goal_code x = Some g) df = [ob]"
  shows "\<exists>r. filter (\<lambda>r. country_code r = c \<and> goal_code r = g) (fst (engineer_features df)) = [r]
           \<and> data_points r = 1
           \<and> value_std r = Some 0
           \<and> avg_yoy_change r = (case f_yoy_change ob of None \<Rightarrow> Some 0 | Some d \<Rightarrow> Some d)"
proof -
  have "ob \<in> set (filter (\<lambda>x. f_country_code x = Some c \<and> f_goal_code x = Some g) df)"
    unfolding assms by simp
  then have ob: "ob \<in> set df" "f_country_code ob = Some c" "f_goal_code ob = Some g"
    by auto
  from engineered_row_of_key [OF ob] show ?thesis
    unfolding assms by (simp add: agg_single fillna_def)
qed

section \<open>The contextual columns\<close>

lemma agg_last_Cons:
  "agg_last (c # cs) = (case agg_last cs of None \<Rightarrow> c | Some v \<Rightarrow> Some v)"
  by (cases c; cases "dropna cs"; simp add: agg_last_def)

lemma agg_last_Nil: "agg_last [] = None"
  by (simp add: agg_last_def)

lemma agg_last_latest:
  assumes "sorted (map k ys)"
  shows "case agg_last (map col ys) of
           None \<Rightarrow> (\<forall>x \<in> set ys. col x = None)
         | Some a \<Rightarrow> (\<exists>x \<in> set ys. col x = Some a
                       \<and> (\<forall>y \<in> set ys. col y \<noteq> None \<longrightarrow> k y \<le> k x))"
  using assms
proof (induction ys)
  case Nil
  then show ?case by (simp add: agg_last_Nil)
next
  case (Cons y ys)
  then have s: "sorted (map k ys)" and le: "\<forall>x \<in> set ys. k y \<le> k x" by auto
  note IH = Cons.IH [OF s]
  show ?case
  proof (cases "agg_last (map col ys)")
    case None
    then have "\<forall>x \<in> set ys. col x = None" using IH by simp
    then show ?thesis using None by (cases "col y") (auto simp: agg_last_Cons)
  next
    case (Some a)
    then obtain x where x: "x \<in> set ys" "col x = Some a"
      "\<forall>z \<in> set ys. col z \<noteq> None \<longrightarrow> k z \<le> k x"
      using IH by auto
    have "k y \<le> k x" using le x(1) by simp
    then show ?thesis using Some x by (auto simp: agg_last_Cons)
  qed
qed

lemma latest_present_agg_last:
  "latest_present col df c
     (agg_last (map col (filter (\<lambda>r. f_country_code r = Some c)
        (sort_values_year (sort_values_country_goal_year df)))))"
proof -
  let ?ys = "filter (\<lambda>r. f_country_code r = Some c)
        (sort_values_year (sort_values_country_goal_year df))"
  have s: "sorted (map f_year ?ys)"
    unfolding sort_values_year_def by (rule sorted_filter) simp
  have set: "set ?ys = {x \<in> set df. f_country_code x = Some c}" by auto
  show ?thesis
    using agg_last_latest [OF s, of col] unfolding latest_present_def set
    by (cases "agg_last (map col ?ys)") auto
qed

lemma with_attrs_Some:
  "country_name (with_attrs p (Some a)) = f_country_name a"
  "region (with_attrs p (Some a)) = f_region a"
  "income_level (with_attrs p (Some a)) = f_income_level a"
  "gdp_per_capita (with_attrs p (Some a)) = e_gdp_per_capita a"
  "population (with_attrs p (Some a)) = e_population a"
  "life_expectancy (with_attrs p (Some a)) = e_life_expectancy a"
  "adult_literacy_rate (with_attrs p (Some a)) = e_adult_literacy_rate a"
  "progress.truncate (with_attrs p b) = p"
  by (simp_all add: with_attrs_def progress.defs merged.defs split: option.splits)

lemma last_attrs_columns:
  "f_country_name (last_attrs rows) = agg_last (map f_country_name rows)"
  "f_region (last_attrs rows) = agg_last (map f_region rows)"
  "f_income_level (last_attrs rows) = agg_last (map f_income_level rows)"
  "e_gdp_per_capita (last_attrs rows) = agg_last (map e_gdp_per_capita rows)"
  "e_population (last_attrs rows) = agg_last (map e_population rows)"
  "e_life_expectancy (last_attrs rows) = agg_last (map e_life_expectancy rows)"
  "e_adult_literacy_rate (last_attrs rows) = agg_last (map e_adult_literacy_rate rows)"
  by (simp_all add: last_attrs_def)

lemma progress_features_country:
  assumes "p \<in> set (progress_features df)"
  shows "\<exists>ob \<in> set df. f_country_code ob = Some (country_code p)"
proof -
  have "(country_code p, goal_code p)
          \<in> set (map (\<lambda>p. (country_code p, goal_code p)) (progress_features df))"
    using assms by force
  then have "Some (country_code p, goal_code p) \<in> set (map row_key df)"
    unfolding progress_features_keys by (simp add: set_dropna)
  then obtain ob where "ob \<in> set df" "row_key ob = Some (country_code p, goal_code p)"
    by auto
  then show ?thesis by (auto simp: row_key_eq)
qed

text \<open>
  C5, as the code has it. GroupBy.last takes each column on its own: every contextual
  column of a merged row holds, for the country of the row, the value of that column
  in the latest observation of the country that has the column (so two columns of one
  row may come from two observations), and is missing only when no observation of
  the country has it. The merge keeps every row of progress_features once, in order.
\<close>

theorem attributes_latest_present_by_column:
  assumes "r \<in> set (merge_left (progress_features (sort_values_country_goal_year df))
                      (latest_attrs (sort_values_country_goal_year df)))"
  shows "latest_present f_country_name df (country_code r) (country_name r)
       \<and> latest_present f_region df (country_code r) (region r)
       \<and> latest_present f_income_level df (country_code r) (income_level r)
       \<and> latest_present e_gdp_per_capita df (country_code r) (gdp_per_capita r)
       \<and> latest_present e_population df (country_code r) (population r)
       \<and> latest_present e_life_expectancy df (country_code r) (life_expectancy r)
       \<and> latest_present e_adult_literacy_rate df (country_code r) (adult_literacy_rate r)
       \<and> map progress.truncate
            (merge_left (progress_features (sort_values_country_goal_year df))
               (latest_attrs (sort_values_country_goal_year df)))
           = progress_features (sort_values_country_goal_year df)"
proof -
  let ?df = "sort_values_country_goal_year df"
  have m: "merge_left (progress_features ?df) (latest_attrs ?df)
             = map (\<lambda>p. with_attrs p (map_of (latest_attrs ?df) (country_code p)))
                 (progress_features ?df)"
    by (rule merge_left_distinct) (rule distinct_latest_attrs)
  from assms obtain p where p: "p \<in> set (progress_features ?df)"
    and r: "r = with_attrs p (map_of (latest_attrs ?df) (country_code p))"
    unfolding m by auto
  from progress_features_country [OF p] obtain ob
    where ob: "ob \<in> set ?df" "f_country_code ob = Some (country_code p)" by blast
  have r': "r = with_attrs p (Some (last_attrs
              (filter (\<lambda>x. f_country_code x = Some (country_code p)) (sort_values_year ?df))))"
    unfolding r map_of_latest_attrs [OF ob] ..
  have c: "country_code r = country_code p" unfolding r by (simp add: with_attrs_columns)
  have t: "map progress.truncate (merge_left (progress_features ?df) (latest_attrs ?df))
             = progress_features ?df"
    unfolding m by (simp add: comp_def with_attrs_Some)
  show ?thesis
    unfolding t c unfolding r' with_attrs_Some last_attrs_columns
    by (simp add: latest_present_agg_last)
qed

section \<open>Missing keys and values\<close>

lemma dropna_filter_present:
  "dropna (map f (filter (\<lambda>x. f x \<noteq> None) xs)) = dropna (map f xs)"
  by (induction xs) auto

lemma keys_without_null_rows:
  "set (dropna (map row_key (filter (\<lambda>x. f_country_code x \<noteq> None \<and> f_goal_code x \<noteq> None) df)))
     = set (dropna (map row_key df))"
  by (auto simp: set_dropna row_key_def image_iff split: option.splits)

lemma group_without_null_rows:
  "filter (\<lambda>r. row_key r = Some k)
      (filter (\<lambda>x. f_country_code x \<noteq> None \<and> f_goal_code x \<noteq> None) df)
     = filter (\<lambda>r. row_key r = Some k) df"
  by (induction df) (auto simp: row_key_def split: option.splits)

text \<open>
  C6, as the code has it. No error is raised. The observations with a missing
  country_code or goal_code are left out of the groups: progress_features is what it
  is on the batch without them. An observation with a missing value stays in its
  group: it counts in data_points, and the statistics of the value skip it.
\<close>

theorem null_rows_pass_silently:
  "progress_features (sort_values_country_goal_year df)
     = progress_features (sort_values_country_goal_year
         (filter (\<lambda>x. f_country_code x \<noteq> None \<and> f_goal_code x \<noteq> None) df))
   \<and> value_mean (agg_group (k, rows))
       = value_mean (agg_group (k, filter (\<lambda>x. f_avg_indicator_value x \<noteq> None) rows))
   \<and> value_std (agg_group (k, rows))
       = value_std (agg_group (k, filter (\<lambda>x. f_avg_indicator_value x \<noteq> None) rows))
   \<and> value_min (agg_group (k, rows))
       = value_min (agg_group (k, filter (\<lambda>x. f_avg_indicator_value x \<noteq> None) rows))
   \<and> value_max (agg_group (k, rows))
       = value_max (agg_group (k, filter (\<lambda>x. f_avg_indicator_value x \<noteq> None) rows))
   \<and> value_latest (agg_group (k, rows))
       = value_latest (agg_group (k, filter (\<lambda>x. f_avg_indicator_value x \<noteq> None) rows))
   \<and> data_points (agg_group (k, rows)) = length rows"
proof -
  let ?hk = "\<lambda>x. f_country_code x \<noteq> None \<and> f_goal_code x \<noteq> None"
  let ?S = sort_values_country_goal_year
  have "set (dropna (map row_key (?S (filter ?hk df)))) = set (dropna (map row_key (?S df)))"
    using keys_without_null_rows [of df] by (simp add: set_dropna)
  from sorted_remdups_cong [OF this]
  have keys: "sort (remdups (dropna (map row_key (?S (filter ?hk df)))))
                = sort (remdups (dropna (map row_key (?S df))))" .
  have rows: "filter (\<lambda>r. row_key r = Some k') (?S (filter ?hk df))
                = filter (\<lambda>r. row_key r = Some k') (?S df)" for k'
    unfolding group_of_sorted group_without_null_rows ..
  have "groupby_country_goal (?S (filter ?hk df)) = groupby_country_goal (?S df)"
    unfolding groupby_country_goal_def keys rows ..
  then have a: "progress_features (?S df) = progress_features (?S (filter ?hk df))"
    by (simp add: progress_features_def)
  have b: "data_points (agg_group (k, rows)) = length rows"
    by (simp add: agg_group_columns)
  show ?thesis
    unfolding b using a
    by (simp add: agg_group_def Let_def agg_mean_def agg_std_def agg_min_def agg_max_def
        agg_last_def dropna_filter_present del: not_None_eq)
qed



section \<open>Training on a single class\<close>

lemma train_model_fit:
  assumes "2 \<le> length fs"
  shows "train_model learner permutation fs
           = Inr (fit learner
                (map (\<lambda>i. map feature_row fs ! i)
                   (drop ((length fs + 4) div 5) (permutation (length fs))))
                (y_train permutation fs))"
proof -
  have "length fs - (length fs + 4) div 5 \<noteq> 0" using assms by arith
  then show ?thesis
    by (simp add: train_model_def train_test_split_def y_train_def Let_def)
qed

text \<open>
  C7, as the code has it. train_model checks nothing about the labels, and the forest
  fits a training split with a single label: for a frame of two rows or more whose
  training labels are all equal, train_model returns a model, whose classes are the
  distinct training labels, and it is generate_predictions that fails on that model,
  with the IndexError of the missing column 1 of predict_proba.
\<close>

theorem single_class_fits_then_predict_fails:
  assumes "2 \<le> length fs" and "length (remdups (y_train permutation fs)) < 2"
  shows "\<exists>model. train_model learner permutation fs = Inr model
           \<and> classes model = sort (remdups (y_train permutation fs))
           \<and> generate_predictions model fs = Inl IndexError"
proof -
  let ?m = "fit learner
                (map (\<lambda>i. map feature_row fs ! i)
                   (drop ((length fs + 4) div 5) (permutation (length fs))))
                (y_train permutation fs)"
  have c: "classes ?m = sort (remdups (y_train permutation fs))"
    by (simp add: fit_def)
  have "length (classes ?m) < 2" unfolding c using assms(2) by simp
  then have "generate_predictions ?m fs = Inl IndexError"
    by (simp add: generate_predictions_def)
  then show ?thesis using train_model_fit [OF assms(1)] c by blast
qed

lemma example_two_rows_y_train:
  "y_train identity_permutation [example_features, example_features] = [0]"
  by (simp add: y_train_def identity_permutation_def example_features_def)

theorem single_class_fits_then_predict_fails_witness:
  "length [example_features, example_features] = 2
   \<and> y_train identity_permutation [example_features, example_features] = [0]
   \<and> map_sum id classes
        (train_model constant_learner identity_permutation [example_features, example_features])
       = Inr [0]"
proof -
  have a: "2 \<le> length [example_features, example_features]" by simp
  have b: "length (remdups (y_train identity_permutation [example_features, example_features])) < 2"
    unfolding example_two_rows_y_train by simp
  from single_class_fits_then_predict_fails [OF a b, of constant_learner]
  obtain model where
    "train_model constant_learner identity_permutation [example_features, example_features]
       = Inr model"
    "classes model
       = sort (remdups (y_train identity_permutation [example_features, example_features]))"
    by blast
  then show ?thesis by (simp add: example_two_rows_y_train)
qed

text \<open>
  C7, as the specification states it, fails: on a training split with the single label
  0, train_model returns a model.
\<close>

theorem single_class_training_counterexample:
  "map_sum id classes
     (train_model constant_learner identity_permutation [example_features, example_features])
     = Inr [0]"
  by (simp add: train_model_def train_test_split_def Let_def identity_permutation_def fit_def
      example_features_def)

section \<open>The example batch, step by step\<close>

lemmas example_rows = kenya_2018_def kenya_2019_def kenya_2020_def peru_goal4_def
  peru_goal8_def no_country_def

lemma example_sorted:
  "sort_values_country_goal_year example_df
     = [kenya_2018, kenya_2019, kenya_2020, peru_goal4, peru_goal8, no_country]"
  by (simp add: example_df_def sort_values_country_goal_year_def na_last_def example_rows)

lemma example_sorted_year:
  "sort_values_year [kenya_2018, kenya_2019, kenya_2020, peru_goal4, peru_goal8, no_country]
     = [kenya_2018, kenya_2019, kenya_2020, peru_goal4, peru_goal8, no_country]"
  by (simp add: sort_values_year_def example_rows)

lemma example_groups:
  "groupby_country_goal [kenya_2018, kenya_2019, kenya_2020, peru_goal4, peru_goal8, no_country]
     = [((''KEN'', ''4''), [kenya_2018, kenya_2019, kenya_2020]),
        ((''PER'', ''4''), [peru_goal4]),
        ((''PER'', ''8''), [peru_goal8])]"
  by (simp add: groupby_country_goal_def row_key_def example_rows)

lemma example_countries:
  "groupby_country [kenya_2018, kenya_2019, kenya_2020, peru_goal4, peru_goal8, no_country]
     = [(''KEN'', [kenya_2018, kenya_2019, kenya_2020]),
        (''PER'', [peru_goal4, peru_goal8])]"
  by (simp add: groupby_country_def example_rows)

lemma example_progress:
  "progress_features [kenya_2018, kenya_2019, kenya_2020, peru_goal4, peru_goal8, no_country]
     = [\<lparr> country_code = ''KEN'', goal_code = ''4'', value_mean = Some 61,
           value_std = Some (sqrt 2), value_min = Some 60, value_max = Some 62,
           value_latest = Some 62, avg_yoy_change = Some 2, total_change = Some 2,
           data_points = 3, latest_year = Some 2020, avg_indicators_measured = Some 3 \<rparr>,
        \<lparr> country_code = ''PER'', goal_code = ''4'', value_mean = Some 80,
           value_std = None, value_min = Some 80, value_max = Some 80,
           value_latest = Some 80, avg_yoy_change = Some 5, total_change = Some 5,
           data_points = 1, latest_year = Some 2020, avg_indicators_measured = Some 2 \<rparr>,
        \<lparr> country_code = ''PER'', goal_code = ''8'', value_mean = Some 40,
           value_std = None, value_min = Some 40, value_max = Some 40,
           value_latest = Some 40, avg_yoy_change = Some (- 1), total_change = Some (- 1),
           data_points = 1, latest_year = Some 2020, avg_indicators_measured = Some 2 \<rparr>]"
  unfolding progress_features_def example_groups
  by (simp add: agg_group_def agg_mean_def agg_std_def agg_min_def agg_max_def agg_last_def
      agg_sum_def agg_count_def example_rows)

lemma example_latest:
  "latest_attrs [kenya_2018, kenya_2019, kenya_2020, peru_goal4, peru_goal8, no_country]
     = [(''KEN'', \<lparr> f_country_name = Some ''Kenya'', f_region = Some ''Africa'',
                     f_income_level = Some ''Lower middle'', e_gdp_per_capita = Some 1900,
                     e_population = Some 50, e_life_expectancy = Some 66,
                     e_adult_literacy_rate = None \<rparr>),
        (''PER'', \<lparr> f_country_name = Some ''Peru'', f_region = Some ''Americas'',
                     f_income_level = Some ''Upper middle'', e_gdp_per_capita = Some 6000,
                     e_population = Some 33, e_life_expectancy = Some 76,
                     e_adult_literacy_rate = Some 94 \<rparr>)]"
  unfolding latest_attrs_def example_sorted_year example_countries
  by (simp add: last_attrs_def agg_last_def example_rows)

lemma example_merged:
  "merge_left (progress_features [kenya_2018, kenya_2019, kenya_2020, peru_goal4, peru_goal8, no_country])
     (latest_attrs [kenya_2018, kenya_2019, kenya_2020, peru_goal4, peru_goal8, no_country])
     = [\<lparr> country_code = ''KEN'', goal_code = ''4'', value_mean = Some 61,
           value_std = Some (sqrt 2), value_min = Some 60, value_max = Some 62,
           value_latest = Some 62, avg_yoy_change = Some 2, total_change = Some 2,
           data_points = 3, latest_year = Some 2020, avg_indicators_measured = Some 3,
           country_name = Some ''Kenya'', region = Some ''Africa'',
           income_level = Some ''Lower middle'', gdp_per_capita = Some 1900,
           population = Some 50, life_expectancy = Some 66, adult_literacy_rate = None \<rparr>,
        \<lparr> country_code = ''PER'', goal_code = ''4'', value_mean = Some 80,
           value_std = None, value_min = Some 80, value_max = Some 80,
           value_latest = Some 80, avg_yoy_change = Some 5, total_change = Some 5,
           data_points = 1, latest_year = Some 2020, avg_indicators_measured = Some 2,
           country_name = Some ''Peru'', region = Some ''Americas'',
           income_level = Some ''Upper middle'', gdp_per_capita = Some 6000,
           population = Some 33, life_expectancy = Some 76, adult_literacy_rate = Some 94 \<rparr>,
        \<lparr> country_code = ''PER'', goal_code = ''8'', value_mean = Some 40,
           value_std = None, value_min = Some 40, value_max = Some 40,
           value_latest = Some 40, avg_yoy_change = Some (- 1), total_change = Some (- 1),
           data_points = 1, latest_year = Some 2020, avg_indicators_measured = Some 2,
           country_name = Some ''Peru'', region = Some ''Americas'',
           income_level = Some ''Upper middle'', gdp_per_capita = Some 6000,
           population = Some 33, life_expectancy = Some 76, adult_literacy_rate = Some 94 \<rparr>]"
  unfolding example_progress example_latest
  by (simp add: merge_left_def with_attrs_def progress.defs merged.defs)

lemma example_filled:
  "features_filled example_df
     = [\<lparr> country_code = ''KEN'', goal_code = ''4'', value_mean = Some 61,
           value_std = Some (sqrt 2), value_min = Some 60, value_max = Some 62,
           value_latest = Some 62, avg_yoy_change = Some 2, total_change = Some 2,
           data_points = 3, latest_year = Some 2020, avg_indicators_measured = Some 3,
           country_name = Some ''Kenya'', region = Some ''Africa'',
           income_level = Some ''Lower middle'', gdp_per_capita = Some 1900,
           population = Some 50, life_expectancy = Some 66, adult_literacy_rate = Some 94 \<rparr>,
        \<lparr> country_code = ''PER'', goal_code = ''4'', value_mean = Some 80,
           value_std = Some 0, value_min = Some 80, value_max = Some 80,
           value_latest = Some 80, avg_yoy_change = Some 5, total_change = Some 5,
           data_points = 1, latest_year = Some 2020, avg_indicators_measured = Some 2,
           country_name = Some ''Peru'', region = Some ''Americas'',
           income_level = Some ''Upper middle'', gdp_per_capita = Some 6000,
           population = Some 33, life_expectancy = Some 76, adult_literacy_rate = Some 94 \<rparr>,
        \<lparr> country_code = ''PER'', goal_code = ''8'', value_mean = Some 40,
           value_std = Some 0, value_min = Some 40, value_max = Some 40,
           value_latest = Some 40, avg_yoy_change = Some (- 1), total_change = Some (- 1),
           data_points = 1, latest_year = Some 2020, avg_indicators_measured = Some 2,
           country_name = Some ''Peru'', region = Some ''Americas'',
           income_level = Some ''Upper middle'', gdp_per_capita = Some 6000,
           population = Some 33, life_expectancy = Some 76, adult_literacy_rate = Some 94 \<rparr>]"
  unfolding features_filled_def Let_def example_sorted example_merged fill_missing_rows
  by (simp add: median_def fillna_def fillna_with_def)

lemma example_engineered:
  "fst (engineer_features example_df) = [kenya_features, peru4_features, peru8_features]"
  unfolding engineer_features_rows example_filled
  by (simp add: gt_cell_def median_def label_classes_def fill_unknown_def with_labels_def
      merged.defs features.defs kenya_features_def peru4_features_def peru8_features_def)

section \<open>The properties on the example batch\<close>

lemma example_median_change:
  "median (map avg_yoy_change [kenya_features, peru4_features, peru8_features]) = Some 2"
  by (simp add: median_def kenya_features_def peru4_features_def peru8_features_def)

theorem on_track_iff_above_median_witness:
  "peru4_features \<in> set (fst (engineer_features example_df))
   \<and> avg_yoy_change peru4_features = Some 5
   \<and> median (map avg_yoy_change (fst (engineer_features example_df))) = Some 2
   \<and> on_track_2030 peru4_features = 1"
proof -
  have m: "peru4_features \<in> set (fst (engineer_features example_df))"
    unfolding example_engineered by simp
  from on_track_iff_above_median [OF m] obtain x md where
    "avg_yoy_change peru4_features = Some x"
    "median (map avg_yoy_change (fst (engineer_features example_df))) = Some md"
    "on_track_2030 peru4_features = 1 \<longleftrightarrow> md < x"
    by blast
  moreover have "avg_yoy_change peru4_features = Some 5"
    by (simp add: peru4_features_def)
  moreover have "median (map avg_yoy_change (fst (engineer_features example_df))) = Some 2"
    unfolding example_engineered by (rule example_median_change)
  ultimately show ?thesis using m by simp
qed

theorem positive_class_at_most_half_witness:
  "length (filter (\<lambda>r. on_track_2030 r = 1) (fst (engineer_features example_df))) = 1
   \<and> length (fst (engineer_features example_df)) = 3"
  using positive_class_at_most_half [of example_df] unfolding example_engineered
  by (simp add: kenya_features_def peru4_features_def peru8_features_def)

lemma example_kenya_group:
  "filter (\<lambda>x. f_country_code x = Some ''KEN'' \<and> f_goal_code x = Some ''4'') example_df
     = [kenya_2020, kenya_2018, kenya_2019]"
  by (simp add: example_df_def example_rows)

lemma example_peru_groups:
  "filter (\<lambda>x. f_country_code x = Some ''PER'' \<and> f_goal_code x = Some ''4'') example_df
     = [peru_goal4]"
  "filter (\<lambda>x. f_country_code x = Some ''PER'' \<and> f_goal_code x = Some ''8'') example_df
     = [peru_goal8]"
  by (simp_all add: example_df_def example_rows)

lemma example_rows_of_key:
  "filter (\<lambda>r. country_code r = ''KEN'' \<and> goal_code r = ''4'')
      [kenya_features, peru4_features, peru8_features] = [kenya_features]"
  "filter (\<lambda>r. country_code r = ''PER'' \<and> goal_code r = ''4'')
      [kenya_features, peru4_features, peru8_features] = [peru4_features]"
  "filter (\<lambda>r. country_code r = ''PER'' \<and> goal_code r = ''8'')
      [kenya_features, peru4_features, peru8_features] = [peru8_features]"
  by (simp_all add: kenya_features_def peru4_features_def peru8_features_def)

theorem one_feature_record_per_key_witness:
  "kenya_2020 \<in> set example_df
   \<and> f_country_code kenya_2020 = Some ''KEN'' \<and> f_goal_code kenya_2020 = Some ''4''
   \<and> filter (\<lambda>r. country_code r = ''KEN'' \<and> goal_code r = ''4'')
        (fst (engineer_features example_df)) = [kenya_features]
   \<and> data_points kenya_features = 3
   \<and> length (filter (\<lambda>x. f_country_code x = Some ''KEN'' \<and> f_goal_code x = Some ''4'')
        example_df) = 3"
proof -
  have a: "kenya_2020 \<in> set example_df" by (simp add: example_df_def)
  have b: "f_country_code kenya_2020 = Some ''KEN''" by (simp add: kenya_2020_def)
  have c: "f_goal_code kenya_2020 = Some ''4''" by (simp add: kenya_2020_def)
  show ?thesis
    using a b c one_feature_record_per_key [OF a b c]
    unfolding example_engineered example_rows_of_key example_kenya_group
    by simp
qed

theorem single_observation_group_witness:
  "filter (\<lambda>x. f_country_code x = Some ''PER'' \<and> f_goal_code x = Some ''8'') example_df
     = [peru_goal8]
   \<and> filter (\<lambda>r. country_code r = ''PER'' \<and> goal_code r = ''8'')
        (fst (engineer_features example_df)) = [peru8_features]
   \<and> f_yoy_change peru_goal8 = Some (- 1)
   \<and> data_points peru8_features = 1
   \<and> value_std peru8_features = Some 0
   \<and> avg_yoy_change peru8_features = Some (- 1)"
  using single_observation_group [OF example_peru_groups(2)]
  unfolding example_engineered example_rows_of_key
  by (simp add: peru_goal8_def example_peru_groups)

text \<open>
  C4, as the specification states it, fails: Peru has a single observation for goal 4,
  with the yoy_change 5, and the avg_yoy_change of its row is 5, not 0.
\<close>

theorem single_observation_change_counterexample:
  "filter (\<lambda>x. f_country_code x = Some ''PER'' \<and> f_goal_code x = Some ''4'') example_df
     = [peru_goal4]
   \<and> filter (\<lambda>r. country_code r = ''PER'' \<and> goal_code r = ''4'')
        (fst (engineer_features example_df)) = [peru4_features]
   \<and> value_std peru4_features = Some 0
   \<and> avg_yoy_change peru4_features = Some 5
   \<and> avg_yoy_change peru4_features \<noteq> Some 0"
  unfolding example_engineered example_rows_of_key example_peru_groups
  by (simp add: peru4_features_def)

lemma example_kenya_merged:
  "kenya_merged \<in> set (merge_left (progress_features (sort_values_country_goal_year example_df))
                         (latest_attrs (sort_values_country_goal_year example_df)))"
  unfolding example_sorted example_merged by (simp add: kenya_merged_def)

theorem attributes_latest_present_by_column_witness:
  "kenya_merged \<in> set (merge_left (progress_features (sort_values_country_goal_year example_df))
                         (latest_attrs (sort_values_country_goal_year example_df)))
   \<and> gdp_per_capita kenya_merged = Some 1900
   \<and> population kenya_merged = Some 50
   \<and> latest_present e_gdp_per_capita example_df ''KEN'' (Some 1900)
   \<and> latest_present e_population example_df ''KEN'' (Some 50)"
  using example_kenya_merged attributes_latest_present_by_column [OF example_kenya_merged]
  by (simp add: kenya_merged_def)

text \<open>
  C5, as the specification states it, fails: the latest observation of Kenya (2020) has
  no gdp_per_capita and the population 50; the row of Kenya gets the population 50 of
  2020 and the gdp_per_capita 1900 of 2019, so its contextual columns come from two
  observations.
\<close>

theorem attributes_from_two_observations_counterexample:
  "map (\<lambda>r. (country_code r, goal_code r, gdp_per_capita r, population r))
      (fst (engineer_features example_df))
     = [(''KEN'', ''4'', Some 1900, Some 50),
        (''PER'', ''4'', Some 6000, Some 33),
        (''PER'', ''8'', Some 6000, Some 33)]
   \<and> map (\<lambda>x. (f_year x, e_gdp_per_capita x, e_population x))
        (filter (\<lambda>x. f_country_code x = Some ''KEN'') example_df)
     = [(2020, None, Some 50), (2018, Some 1800, None), (2019, Some 1900, Some 48)]"
  unfolding example_engineered
  by (simp add: kenya_features_def peru4_features_def peru8_features_def example_df_def
      example_rows)

lemma example_without_null_keys:
  "filter (\<lambda>x. f_country_code x \<noteq> None \<and> f_goal_code x \<noteq> None) example_df
     = [peru_goal8, kenya_2020, kenya_2018, peru_goal4, kenya_2019]"
  by (simp add: example_df_def example_rows)

theorem null_rows_pass_silently_witness:
  "progress_features (sort_values_country_goal_year example_df)
     = progress_features (sort_values_country_goal_year
         [peru_goal8, kenya_2020, kenya_2018, peru_goal4, kenya_2019])
   \<and> no_country \<in> set example_df
   \<and> f_country_code no_country = None"
  using null_rows_pass_silently [of example_df]
  unfolding example_without_null_keys
  by (simp add: example_df_def no_country_def)

lemma with_prediction_columns:
  "country_code (with_prediction r p) = country_code r"
  "goal_code (with_prediction r p) = goal_code r"
  "data_points (with_prediction r p) = data_points r"
  "value_mean (with_prediction r p) = value_mean r"
  by (simp_all add: with_prediction_def features.defs prediction.defs)

lemma example_y_train:
  "y_train identity_permutation [kenya_features, peru4_features, peru8_features] = [1, 0]"
  by (simp add: y_train_def identity_permutation_def kenya_features_def peru4_features_def
      peru8_features_def)

lemma example_main:
  "main constant_learner identity_permutation example_df
     = Inr (map (\<lambda>r. with_prediction r (1 / 2))
         [kenya_features, peru4_features, peru8_features])"
proof -
  have "2 \<le> length [kenya_features, peru4_features, peru8_features]" by simp
  note t = train_model_fit [OF this, of constant_learner identity_permutation]
  show ?thesis
    unfolding main_def Let_def example_engineered t
    by (simp add: generate_predictions_def fit_def example_y_train constant_learner_def)
qed

text \<open>
  C6, as the specification states it, fails: the batch has an observation without
  country_code and an observation of Kenya without value, and the run completes with
  one prediction for each group; the first is dropped, the second is counted in the
  data_points of Kenya (3) and skipped by its value_mean (61).
\<close>

theorem null_key_run_completes_counterexample:
  "map_sum id (map (\<lambda>r. (country_code r, goal_code r, data_points r, value_mean r)))
      (main constant_learner identity_permutation example_df)
     = Inr [(''KEN'', ''4'', 3, Some 61), (''PER'', ''4'', 1, Some 80),
            (''PER'', ''8'', 1, Some 40)]
   \<and> no_country \<in> set example_df \<and> f_country_code no_country = None
   \<and> kenya_2018 \<in> set example_df \<and> f_avg_indicator_value kenya_2018 = None"
  unfolding example_main
  by (simp add: with_prediction_columns kenya_features_def peru4_features_def
      peru8_features_def example_df_def no_country_def kenya_2018_def)

end
